theory Spec2Isabelle
  imports Main
begin

section \<open>The update core of openag\_ui: dashboard and recipes manager\<close>

text \<open>
  The source file holds two modules, one after the other: the environmental data points
  dashboard (lines 1 to 206) and the recipes manager (from line 207). Both follow the
  same scheme: \<open>update (model, action)\<close> returns the next model and a description of the
  effects to run. Each module imports helpers of \<^verbatim>\<open>./common\<close> and child modules whose
  files are not part of the sources at hand. The helpers the claims are about are
  modelled from the specification; the update functions of the child modules, the
  configuration and the localisation are parameters, collected in one record per module.
\<close>

subsection \<open>Results and effects\<close>

text \<open>
  Modelled from the spec: \<^verbatim>\<open>common/result\<close> is missing. A result is the sum type over
  \<open>Ok (value)\<close> and \<open>Error (error)\<close>; the source reads \<open>result.isOk\<close>,
  \<open>result.value\<close> and \<open>result.error\<close>.
\<close>

datatype ('a, 'e) result = Ok 'a | Error 'e

type_synonym error = string

text \<open>
  A data point as a row of the "latest" view carries it: only the field \<open>variable\<close> is
  read by the source; \<open>reading\<close> stands for the rest of the document.
\<close>

record data_point =
  variable :: string
  reading :: string

text \<open>A row \<open>{value: ...}\<close> and a record set \<open>{rows: [...]}\<close>.\<close>

record row =
  row_value :: data_point

record record_set =
  rows :: "row list"

text \<open>
  A recipe document: the source reads its field \<open>_id\<close> only (here \<open>doc_id\<close>);
  \<open>doc_body\<close> stands for the rest of the document.
\<close>

record recipe =
  doc_id :: string
  doc_body :: string

type_synonym put_confirmation = string

text \<open>
  Effects are descriptions of pending work (library \<^verbatim>\<open>reflex\<close>): \<open>Effects.none\<close>,
  \<open>Effects.receive (action)\<close>, \<open>Effects.batch ([...])\<close>, and a task paired with the
  function that wraps its eventual result into an action. The tasks of this repository
  are the HTTP get of \<^verbatim>\<open>common/request\<close> and the restore, put and sync of
  \<^verbatim>\<open>common/database\<close>, each on a database handle. \<open>fx.map (f)\<close> is \<open>map_fx f\<close>.
\<close>

datatype 'a fx =
    none
  | receive 'a
  | batch_fx "'a fx list"
  | http_get string "(record_set, error) result \<Rightarrow> 'a"
  | db_restore string "(recipe list, error) result \<Rightarrow> 'a"
  | db_put string recipe "(put_confirmation, error) result \<Rightarrow> 'a"
  | db_sync string string "(unit, error) result \<Rightarrow> 'a"

text \<open>
  The effects a description holds once its batches are flattened, and what it asks of
  the database. These serve to state which requests an update issues.
\<close>

fun fx_leaves :: "'a fx \<Rightarrow> 'a fx list" where
  "fx_leaves (batch_fx fxs) = concat (map fx_leaves fxs)"
| "fx_leaves none = []"
| "fx_leaves effect = [effect]"

fun is_db_restore :: "'a fx \<Rightarrow> bool" where
  "is_db_restore (db_restore db k) = True"
| "is_db_restore effect = False"

fun is_db_sync :: "'a fx \<Rightarrow> bool" where
  "is_db_sync (db_sync db origin k) = True"
| "is_db_sync effect = False"

fun is_db_put :: "'a fx \<Rightarrow> bool" where
  "is_db_put (db_put db doc k) = True"
| "is_db_put effect = False"

definition issues_restore :: "'a fx \<Rightarrow> bool" where
  "issues_restore effect = list_ex is_db_restore (fx_leaves effect)"

definition issues_sync :: "'a fx \<Rightarrow> bool" where
  "issues_sync effect = list_ex is_db_sync (fx_leaves effect)"

subsection \<open>Helpers of \<^verbatim>\<open>common/prelude\<close>, \<^verbatim>\<open>common/cursor\<close>, \<^verbatim>\<open>common/unknown\<close>\<close>

text \<open>
  Modelled from the spec: \<open>batch\<close> of \<^verbatim>\<open>common/prelude\<close> is missing. It feeds the
  actions to \<open>update\<close> one after the other, each on the model the one before returned,
  and returns the last model with the batch of the effects in the order of issuance.
\<close>

fun batch_loop ::
  "('m \<Rightarrow> 'a \<Rightarrow> 'm \<times> 'a fx) \<Rightarrow> 'm \<Rightarrow> 'a list \<Rightarrow> 'a fx list \<Rightarrow> 'm \<times> 'a fx list" where
  "batch_loop update model [] effects = (model, effects)"
| "batch_loop update model (action # actions) effects =
     (case update model action of
        (state, effect) \<Rightarrow> batch_loop update state actions (effects @ [effect]))"

definition batch :: "('m \<Rightarrow> 'a \<Rightarrow> 'm \<times> 'a fx) \<Rightarrow> 'm \<Rightarrow> 'a list \<Rightarrow> 'm \<times> 'a fx" where
  "batch update model actions =
     (case batch_loop update model actions [] of
        (state, effects) \<Rightarrow> (state, batch_fx effects))"

text \<open>
  Modelled from the spec: \<open>cursor\<close> of \<^verbatim>\<open>common/cursor\<close> is missing. It reads the
  child state with \<open>get\<close>, runs the child's \<open>update\<close> on the child's action, writes the
  child state back with \<open>set\<close> and maps the child's effect through \<open>tag\<close>.
\<close>

definition cursor ::
  "('m \<Rightarrow> 'c) \<Rightarrow> ('m \<Rightarrow> 'c \<Rightarrow> 'm) \<Rightarrow> ('c \<Rightarrow> 'b \<Rightarrow> 'c \<times> 'b fx) \<Rightarrow> ('b \<Rightarrow> 'a) \<Rightarrow>
   'm \<Rightarrow> 'b \<Rightarrow> 'm \<times> 'a fx" where
  "cursor getter setter update tag model action =
     (case update (getter model) action of
        (next, effect) \<Rightarrow> (setter model next, map_fx tag effect))"

text \<open>
  Modelled from the spec: \<open>Unknown.update\<close> of \<^verbatim>\<open>common/unknown\<close> is missing. An
  action of no known type is logged and does not alter the state; the log line is not
  part of the model.
\<close>

definition Unknown_update :: "'m \<Rightarrow> 'a \<Rightarrow> 'm \<times> 'a fx" where
  "Unknown_update model action = (model, none)"

text \<open>
  Modelled from the spec: \<open>compose\<close> of \<^verbatim>\<open>lang/functional\<close> is missing. The source uses
  it to build an action maker from a tagging function and a child's action maker.
\<close>

definition compose :: "('b \<Rightarrow> 'c) \<Rightarrow> ('a \<Rightarrow> 'b) \<Rightarrow> 'a \<Rightarrow> 'c" where
  "compose f g x = f (g x)"

text \<open>
  Modelled from the spec: \<open>Result.updater\<close> of \<^verbatim>\<open>common/result\<close> is missing. It
  builds an update on a result from one function for \<open>Ok\<close> and one for \<open>Error\<close>.
\<close>

definition Result_updater ::
  "('m \<Rightarrow> 'v \<Rightarrow> 'r) \<Rightarrow> ('m \<Rightarrow> 'e \<Rightarrow> 'r) \<Rightarrow> 'm \<Rightarrow> ('v, 'e) result \<Rightarrow> 'r" where
  "Result_updater ok err model res =
     (case res of Ok v \<Rightarrow> ok model v | Error e \<Rightarrow> err model e)"

text \<open>
  \<open>Array.prototype.shift\<close> of JavaScript: the first element, \<open>undefined\<close> (here \<open>None\<close>) on an
  empty array.
\<close>

definition shift :: "'a list \<Rightarrow> 'a option" where
  "shift xs = (case xs of [] \<Rightarrow> None | x # rest \<Rightarrow> Some x)"

subsection \<open>Helpers of \<^verbatim>\<open>common/indexed\<close> and \<^verbatim>\<open>common/database\<close>\<close>

text \<open>
  Modelled from the spec: \<^verbatim>\<open>common/indexed\<close> is missing. An indexed collection is
  any model with an ordered list \<open>order\<close> of ids, a mapping \<open>entries\<close> from id to entity
  and the id \<open>active\<close> of the selected entity (\<open>null\<close> is \<open>None\<close>). \<open>Activate (id)\<close>
  is its one action the source names.
\<close>

datatype indexed_action = Indexed_Activate string

record indexed =
  active :: "string option"
  order :: "string list"
  entries :: "string \<rightharpoonup> recipe"

text \<open>
  Modelled from the spec: \<open>getter\<close> of \<^verbatim>\<open>common/indexed\<close> is missing.
  \<open>getter (key)\<close> reads the field \<open>key\<close> of an object; the field is given as its
  selector.
\<close>

definition Indexed_getter :: "('o \<Rightarrow> 'v) \<Rightarrow> 'o \<Rightarrow> 'v" where
  "Indexed_getter key object = key object"

text \<open>
  Modelled from the spec: \<open>indexWith\<close> of \<^verbatim>\<open>common/indexed\<close> is missing.
  \<open>indexWith (entities, keyFn)\<close> builds a fresh mapping from a sequence: each entity
  is stored under its key, in sequence order.
\<close>

definition Indexed_indexWith :: "'e list \<Rightarrow> ('e \<Rightarrow> 'k) \<Rightarrow> ('k \<rightharpoonup> 'e)" where
  "Indexed_indexWith entities keyFn =
     fold (\<lambda>entity index. index(keyFn entity \<mapsto> entity)) entities Map.empty"

text \<open>
  Modelled from the spec: \<open>add\<close> of \<^verbatim>\<open>common/indexed\<close> is missing.
  \<open>add (model, id, entry)\<close> inserts the entity at \<open>id\<close>, appending \<open>id\<close> to \<open>order\<close>
  if it is new (no entity is stored under it) and overwriting \<open>entries[id]\<close> otherwise.
\<close>

definition Indexed_add :: "'z indexed_scheme \<Rightarrow> string \<Rightarrow> recipe \<Rightarrow> 'z indexed_scheme" where
  "Indexed_add model id' entry =
     model\<lparr>order := (if entries model id' = None then order model @ [id'] else order model),
           entries := (entries model)(id' \<mapsto> entry)\<rparr>"

text \<open>
  Modelled from the spec: \<open>update\<close> of \<^verbatim>\<open>common/indexed\<close> is missing.
  \<open>Activate (id)\<close> marks the entity as the selected one, overwriting any selection
  before it, so that at most one id is active.
\<close>

fun Indexed_update ::
  "'z indexed_scheme \<Rightarrow> indexed_action \<Rightarrow> 'z indexed_scheme \<times> indexed_action fx" where
  "Indexed_update model (Indexed_Activate id') = (model\<lparr>active := Some id'\<rparr>, none)"

text \<open>
  Modelled from the spec: \<open>updateWithID\<close> of \<^verbatim>\<open>common/indexed\<close> is missing. It
  routes an action to the entity at \<open>id\<close> and tags the effect; on an absent \<open>id\<close> it
  returns the model as it is and no effect.
\<close>

definition Indexed_updateWithID ::
  "(recipe \<Rightarrow> 'b \<Rightarrow> recipe \<times> 'b fx) \<Rightarrow> ('b \<Rightarrow> 'a) \<Rightarrow> 'z indexed_scheme \<Rightarrow> string \<Rightarrow> 'b \<Rightarrow>
   'z indexed_scheme \<times> 'a fx" where
  "Indexed_updateWithID update tag model id' action =
     (case entries model id' of
        None \<Rightarrow> (model, none)
      | Some entry \<Rightarrow>
          (case update entry action of
             (next, effect) \<Rightarrow>
               (model\<lparr>entries := (entries model)(id' \<mapsto> next)\<rparr>, map_fx tag effect)))"

text \<open>
  Modelled from the spec: \<^verbatim>\<open>common/database\<close> is missing. \<open>restore\<close>, \<open>put\<close> and
  \<open>sync\<close> describe the request on the database handle; each yields a result, which the
  caller maps into an action. The actions \<open>Put\<close>, \<open>Putted\<close> and \<open>Synced\<close> of that
  module are constructors of the recipes manager's actions below.
\<close>

definition Database_restore :: "string \<Rightarrow> ((recipe list, error) result) fx" where
  "Database_restore db = db_restore db (\<lambda>res. res)"

definition Database_put :: "string \<Rightarrow> recipe \<Rightarrow> ((put_confirmation, error) result) fx" where
  "Database_put db doc = db_put db doc (\<lambda>res. res)"

definition Database_sync :: "string \<Rightarrow> string \<Rightarrow> ((unit, error) result) fx" where
  "Database_sync db remote = db_sync db remote (\<lambda>res. res)"

text \<open>
  Modelled from the spec: \<open>merge\<close> of \<^verbatim>\<open>common/prelude\<close> is missing. It returns a
  new object with the changes written over the fields of the first argument and mutates
  neither. The source calls \<open>merge (model, {field: value})\<close>, which is the update of
  that field of the record, and, in \<open>startByID\<close>, \<open>merge ({}, entry)\<close>: a new object
  holding the fields of the entry (its copy), the empty object when the entry is
  \<open>undefined\<close>. \<open>merge_empty\<close> gives the fields of that object; which object it is
  follows below, on a store of objects.
\<close>

datatype recipe_copy = EmptyObject | Copy recipe

definition merge_empty :: "recipe option \<Rightarrow> recipe_copy" where
  "merge_empty changes = (case changes of None \<Rightarrow> EmptyObject | Some entry \<Rightarrow> Copy entry)"

subsection \<open>Objects and their identity\<close>

text \<open>
  JavaScript objects are references. Where a property depends on which object a value
  is, the objects live in a store: the list of the objects allocated so far, an object's
  address being its index, and its cell the fields it holds (none, or those of a
  recipe). An object literal and every new object are allocated at the end of the
  store, so that an address is never reused and no cell is ever overwritten. No
  reference of a running program points outside the store; reading there gives no
  fields.
\<close>

type_synonym address = nat

type_synonym store = "recipe_copy list"

definition fields_at :: "store \<Rightarrow> address \<Rightarrow> recipe_copy" where
  "fields_at s a = (if a < length s then s ! a else EmptyObject)"

definition alloc :: "store \<Rightarrow> recipe_copy \<Rightarrow> address \<times> store" where
  "alloc s content = (length s, s @ [content])"

text \<open>
  Modelled from the spec: \<open>merge\<close> of \<^verbatim>\<open>common/prelude\<close> is missing; this is
  \<open>merge (target, changes)\<close> on objects of the store. It is copy-on-write and never
  mutates: when the changes alter no field of the target (or are \<open>undefined\<close>) it
  returns the target itself, and otherwise a new object holding the fields of the
  target with those of the changes written over them. A recipe object holds every
  field of a recipe, so its fields replace those of the target.
\<close>

definition overlay :: "recipe_copy \<Rightarrow> recipe_copy \<Rightarrow> recipe_copy" where
  "overlay target changes = (case changes of EmptyObject \<Rightarrow> target | Copy r \<Rightarrow> Copy r)"

definition merge_at :: "store \<Rightarrow> address \<Rightarrow> address option \<Rightarrow> address \<times> store" where
  "merge_at s target changes =
     (case changes of
        None \<Rightarrow> (target, s)
      | Some c \<Rightarrow>
          if overlay (fields_at s target) (fields_at s c) = fields_at s target then (target, s)
          else alloc s (overlay (fields_at s target) (fields_at s c)))"

subsection \<open>The dashboard: actions, model and imported modules\<close>

text \<open>
  Modelled from the spec: the actions of \<^verbatim>\<open>common/poll\<close> (ping, pong, miss), the
  \<open>AddMany\<close> of \<^verbatim>\<open>environmental-data-point\<close> and the \<open>Start\<close> and \<open>End\<close> of
  \<^verbatim>\<open>environmental-data-point/recipe\<close> are missing; the source names them and reads
  the type \<open>Ping\<close>. The last constructor of each child stands for its other actions.
\<close>

datatype poll_action = Ping | Pong | Miss

datatype edp_action = AddMany "data_point list" | Other_edp string

datatype current_recipe_action =
  Start "data_point option" | End "data_point option" | Other_current_recipe string

text \<open>
  An action of the dashboard is an object with a \<open>type\<close>; the constructors are the
  types \<open>update\<close> tells apart, and \<open>Other\<close> is an action of any other type.
  \<open>tagged (name, source)\<close> and \<open>tag (name)\<close> of \<^verbatim>\<open>common/prelude\<close> build the action
  \<open>{type: name, source}\<close>, which is the constructor of that name applied to the source.
\<close>

datatype action =
    CurrentRecipe current_recipe_action
  | AirTemperature edp_action
  | WaterTemperature edp_action
  | Poll poll_action
  | Get string
  | Got "(record_set, error) result"
  | Restore record_set
  | Other string

record ('p, 'e, 'c) model =
  currentRecipe :: 'c
  poll :: 'p
  airTemperature :: 'e
  waterTemperature :: 'e

text \<open>
  What the dashboard imports and the sources do not hold: the origin of the "latest"
  view of the configuration file, the table \<open>LANG\<close> of titles, and \<open>init\<close> and
  \<open>update\<close> of the three child modules (the two temperature series share one module).
\<close>

record ('p, 'e, 'c) dashboard_env =
  ORIGIN_LATEST :: string
  Poll_init :: "'p \<times> poll_action fx"
  Poll_update :: "'p \<Rightarrow> poll_action \<Rightarrow> 'p \<times> poll_action fx"
  CurrentRecipe_init :: "'c \<times> current_recipe_action fx"
  CurrentRecipe_update :: "'c \<Rightarrow> current_recipe_action \<Rightarrow> 'c \<times> current_recipe_action fx"
  LANG :: "string \<Rightarrow> string"
  EnvironmentalDataPoint_init :: "string \<Rightarrow> string \<Rightarrow> 'e \<times> edp_action fx"
  EnvironmentalDataPoint_update :: "'e \<Rightarrow> edp_action \<Rightarrow> 'e \<times> edp_action fx"

definition RECIPE_START :: string where "RECIPE_START = ''recipe_start''"
definition RECIPE_END :: string where "RECIPE_END = ''recipe_end''"
definition AIR_TEMPERATURE :: string where "AIR_TEMPERATURE = ''air_temperature''"
definition WATER_TEMPERATURE :: string where "WATER_TEMPERATURE = ''water_temperature''"

text \<open>\<open>matcher (key, value)\<close>: the field is given as its selector.\<close>

definition matcher :: "('o \<Rightarrow> 'v) \<Rightarrow> 'v \<Rightarrow> 'o \<Rightarrow> bool" where
  "matcher key v object = (key object = v)"

definition isRecipeStart :: "data_point \<Rightarrow> bool" where
  "isRecipeStart = matcher variable RECIPE_START"

definition isRecipeEnd :: "data_point \<Rightarrow> bool" where
  "isRecipeEnd = matcher variable RECIPE_END"

definition isAirTemperature :: "data_point \<Rightarrow> bool" where
  "isAirTemperature = matcher variable AIR_TEMPERATURE"

definition isWaterTemperature :: "data_point \<Rightarrow> bool" where
  "isWaterTemperature = matcher variable WATER_TEMPERATURE"

text \<open>
  Modelled from the spec: \<open>Request.Get\<close> and \<open>Request.get\<close> of \<^verbatim>\<open>common/request\<close> are
  missing. \<open>Get (url)\<close> is the action asking for a fetch; \<open>get\<close> leaves the model and
  issues the fetch, whose result comes back as \<open>Got\<close>.
\<close>

definition Request_Get :: "string \<Rightarrow> action" where
  "Request_Get url = Get url"

definition Request_get :: "'m \<Rightarrow> string \<Rightarrow> 'm \<times> action fx" where
  "Request_get model url = (model, http_get url Got)"

definition GetLatest :: "('p, 'e, 'c) dashboard_env \<Rightarrow> action" where
  "GetLatest env = Request_Get (ORIGIN_LATEST env)"

definition PollAction :: "('p, 'e, 'c) dashboard_env \<Rightarrow> poll_action \<Rightarrow> action" where
  "PollAction env action = (if action = Ping then GetLatest env else Poll action)"

definition PongPoll :: "('p, 'e, 'c) dashboard_env \<Rightarrow> action" where
  "PongPoll env = PollAction env Pong"

definition MissPoll :: "('p, 'e, 'c) dashboard_env \<Rightarrow> action" where
  "MissPoll env = PollAction env Miss"

definition AirTemperatureAction :: "edp_action \<Rightarrow> action" where
  "AirTemperatureAction = AirTemperature"

definition WaterTemperatureAction :: "edp_action \<Rightarrow> action" where
  "WaterTemperatureAction = WaterTemperature"

definition AddManyAirTemperatures :: "data_point list \<Rightarrow> action" where
  "AddManyAirTemperatures = compose AirTemperatureAction AddMany"

definition AddManyWaterTemperatures :: "data_point list \<Rightarrow> action" where
  "AddManyWaterTemperatures = compose WaterTemperatureAction AddMany"

definition CurrentRecipeAction :: "current_recipe_action \<Rightarrow> action" where
  "CurrentRecipeAction = CurrentRecipe"

definition CurrentRecipeStart :: "data_point option \<Rightarrow> action" where
  "CurrentRecipeStart = compose CurrentRecipeAction Start"

definition CurrentRecipeEnd :: "data_point option \<Rightarrow> action" where
  "CurrentRecipeEnd = compose CurrentRecipeAction End"

subsection \<open>The dashboard: init and update\<close>

definition dashboard_init ::
  "('p, 'e, 'c) dashboard_env \<Rightarrow> ('p, 'e, 'c) model \<times> action fx" where
  "dashboard_init env =
     (case Poll_init env of (poll0, pollFx) \<Rightarrow>
      case CurrentRecipe_init env of (currentRecipe0, currentRecipeFx) \<Rightarrow>
      case EnvironmentalDataPoint_init env AIR_TEMPERATURE (LANG env AIR_TEMPERATURE) of
        (airTemperature0, airTemperatureFx) \<Rightarrow>
      case EnvironmentalDataPoint_init env WATER_TEMPERATURE (LANG env WATER_TEMPERATURE) of
        (waterTemperature0, waterTemperatureFx) \<Rightarrow>
        (\<lparr>currentRecipe = currentRecipe0, poll = poll0,
          airTemperature = airTemperature0, waterTemperature = waterTemperature0\<rparr>,
         batch_fx [
           map_fx CurrentRecipeAction currentRecipeFx,
           map_fx (PollAction env) pollFx,
           map_fx AirTemperatureAction airTemperatureFx,
           map_fx WaterTemperatureAction waterTemperatureFx,
           receive (GetLatest env)]))"

text \<open>
  Both modules export \<open>init\<close> and \<open>update\<close>; those of the dashboard are
  \<open>dashboard_init\<close> and \<open>dashboard_update\<close> here, those of the recipes manager
  \<open>recipes_init\<close> and \<open>recipes_update\<close>. \<open>merge (model, {poll})\<close> is the update of
  one field of the record.
\<close>

definition updatePoll ::
  "('p, 'e, 'c) dashboard_env \<Rightarrow> ('p, 'e, 'c) model \<Rightarrow> poll_action \<Rightarrow>
   ('p, 'e, 'c) model \<times> action fx" where
  "updatePoll env =
     cursor poll (\<lambda>model p. model\<lparr>poll := p\<rparr>) (Poll_update env) (PollAction env)"

definition updateAirTemperature ::
  "('p, 'e, 'c) dashboard_env \<Rightarrow> ('p, 'e, 'c) model \<Rightarrow> edp_action \<Rightarrow>
   ('p, 'e, 'c) model \<times> action fx" where
  "updateAirTemperature env =
     cursor airTemperature (\<lambda>model a. model\<lparr>airTemperature := a\<rparr>)
       (EnvironmentalDataPoint_update env) AirTemperatureAction"

definition updateWaterTemperature ::
  "('p, 'e, 'c) dashboard_env \<Rightarrow> ('p, 'e, 'c) model \<Rightarrow> edp_action \<Rightarrow>
   ('p, 'e, 'c) model \<times> action fx" where
  "updateWaterTemperature env =
     cursor waterTemperature (\<lambda>model w. model\<lparr>waterTemperature := w\<rparr>)
       (EnvironmentalDataPoint_update env) WaterTemperatureAction"

definition updateCurrentRecipe ::
  "('p, 'e, 'c) dashboard_env \<Rightarrow> ('p, 'e, 'c) model \<Rightarrow> current_recipe_action \<Rightarrow>
   ('p, 'e, 'c) model \<times> action fx" where
  "updateCurrentRecipe env =
     cursor currentRecipe (\<lambda>model c. model\<lparr>currentRecipe := c\<rparr>)
       (CurrentRecipe_update env) CurrentRecipeAction"

definition readDataPointFromRow :: "row \<Rightarrow> data_point" where
  "readDataPointFromRow r = row_value r"

definition readDataPoints :: "record_set \<Rightarrow> (data_point \<Rightarrow> bool) \<Rightarrow> data_point list" where
  "readDataPoints record predicate =
     filter predicate (map readDataPointFromRow (rows record))"

definition readMostRecentDataPoint ::
  "record_set \<Rightarrow> (data_point \<Rightarrow> bool) \<Rightarrow> data_point option" where
  "readMostRecentDataPoint record predicate =
     shift (filter predicate (map readDataPointFromRow (rows record)))"

lemma batch_loop_cong:
  "(\<And>s a. a \<in> set actions \<Longrightarrow> f s a = g s a) \<Longrightarrow>
   batch_loop f model actions effects = batch_loop g model actions effects"
  by (induction actions arbitrary: model effects) (auto split: prod.splits)

lemma batch_cong [fundef_cong]:
  "model = model' \<Longrightarrow> actions = actions' \<Longrightarrow>
   (\<And>s a. a \<in> set actions' \<Longrightarrow> f s a = g s a) \<Longrightarrow>
   batch f model actions = batch g model' actions'"
  unfolding batch_def using batch_loop_cong [of actions' f g] by auto

function restore ::
    "('p, 'e, 'c) dashboard_env \<Rightarrow> ('p, 'e, 'c) model \<Rightarrow> record_set \<Rightarrow>
     ('p, 'e, 'c) model \<times> action fx"
  and gotOk ::
    "('p, 'e, 'c) dashboard_env \<Rightarrow> ('p, 'e, 'c) model \<Rightarrow> record_set \<Rightarrow>
     ('p, 'e, 'c) model \<times> action fx"
  and gotError ::
    "('p, 'e, 'c) dashboard_env \<Rightarrow> ('p, 'e, 'c) model \<Rightarrow> error \<Rightarrow>
     ('p, 'e, 'c) model \<times> action fx"
  and dashboard_update ::
    "('p, 'e, 'c) dashboard_env \<Rightarrow> ('p, 'e, 'c) model \<Rightarrow> action \<Rightarrow>
     ('p, 'e, 'c) model \<times> action fx"
where
  "restore env model record =
     batch (dashboard_update env) model [
       AddManyAirTemperatures (readDataPoints record isAirTemperature),
       AddManyWaterTemperatures (readDataPoints record isWaterTemperature),
       CurrentRecipeStart (readMostRecentDataPoint record isRecipeStart)]"
| "gotOk env model record =
     batch (dashboard_update env) model [Restore record, PongPoll env]"
| "gotError env model err = dashboard_update env model (MissPoll env)"
| "dashboard_update env model (CurrentRecipe source) = updateCurrentRecipe env model source"
| "dashboard_update env model (AirTemperature source) = updateAirTemperature env model source"
| "dashboard_update env model (WaterTemperature source) = updateWaterTemperature env model source"
| "dashboard_update env model (Poll source) = updatePoll env model source"
| "dashboard_update env model (Get url) = Request_get model url"
| "dashboard_update env model (Got res) =
     (case res of
        Ok v \<Rightarrow> gotOk env model v
      | Error e \<Rightarrow> gotError env model e)"
| "dashboard_update env model (Restore v) = restore env model v"
| "dashboard_update env model (Other t) = Unknown_update model (Other t)"
  by pat_completeness auto
termination
proof (relation "measure (\<lambda>x. case x of
      Inl (Inl (env, model, record)) \<Rightarrow> 1
    | Inl (Inr (env, model, record)) \<Rightarrow> 3
    | Inr (Inl (env, model, err)) \<Rightarrow> 3
    | Inr (Inr (env, model, a)) \<Rightarrow>
        (case a of Got res \<Rightarrow> 4 | Restore v \<Rightarrow> 2 | _ \<Rightarrow> 0))", goal_cases)
  case 1
  show ?case by simp
qed (auto simp: PongPoll_def MissPoll_def PollAction_def AddManyAirTemperatures_def
      AddManyWaterTemperatures_def CurrentRecipeStart_def compose_def
      AirTemperatureAction_def WaterTemperatureAction_def CurrentRecipeAction_def)

subsection \<open>The recipes manager: actions, model and imported modules\<close>

text \<open>
  Modelled from the spec: the actions of the child modules \<^verbatim>\<open>common/banner\<close>,
  \<^verbatim>\<open>common/modal\<close>, \<^verbatim>\<open>recipes/form\<close> and \<^verbatim>\<open>recipe\<close> are missing; the source
  names the ones below and reads the types \<open>Back\<close>, \<open>Submitted\<close> and \<open>Activate\<close>.
  The last constructor of a child stands for its other actions.
\<close>

datatype banner_action =
  Banner_AlertRefreshable string | Banner_AlertDismissable string | Other_banner string

datatype modal_action = Modal_Open | Modal_Close

datatype form_action = Back | Submitted recipe | Other_form string

datatype recipe_action = Recipe_Activate | Other_recipe string

text \<open>
  The actions \<open>recipes_update\<close> tells apart, \<open>RequestStart\<close>, which it issues for its
  parent, and \<open>Other_recipes\<close> for an action of any other type.
\<close>

datatype recipes_action =
    Indexed indexed_action
  | Banner banner_action
  | RecipesForm form_action
  | Modal modal_action
  | NoOp
  | Put recipe
  | Putted "(put_confirmation, error) result"
  | RestoreRecipes
  | RestoredRecipes "(recipe list, error) result"
  | StartByID string
  | ActivatePanel "string option"
  | Sync
  | Synced "(unit, error) result"
  | Recipe string recipe_action
  | Configure string
  | RequestStart recipe_copy
  | Other_recipes string

record ('f, 'b) recipes_model = indexed +
  activePanel :: "string option"
  isOpen :: bool
  origin :: "string option"
  recipesForm :: 'f
  banner :: 'b

text \<open>
  What the recipes manager imports and the sources do not hold: the configuration
  (\<open>recipes.local\<close>, \<open>recipes.origin\<close>), \<open>Template.render\<close>, \<open>localize\<close>, and \<open>init\<close>
  and \<open>update\<close> of the child modules. The modal works on the whole model.
\<close>

record ('f, 'b) recipes_env =
  Config_recipes_local :: string
  Config_recipes_origin :: string
  Template_render :: "string \<Rightarrow> (string \<times> string) list \<Rightarrow> string"
  localize :: "string \<Rightarrow> string"
  RecipesForm_init :: "'f \<times> form_action fx"
  RecipesForm_update :: "'f \<Rightarrow> form_action \<Rightarrow> 'f \<times> form_action fx"
  Banner_init :: "'b \<times> banner_action fx"
  Banner_update :: "'b \<Rightarrow> banner_action \<Rightarrow> 'b \<times> banner_action fx"
  Modal_update ::
    "('f, 'b) recipes_model \<Rightarrow> modal_action \<Rightarrow> ('f, 'b) recipes_model \<times> modal_action fx"
  Recipe_update :: "recipe \<Rightarrow> recipe_action \<Rightarrow> recipe \<times> recipe_action fx"

text \<open>The handle \<open>new PouchDB (Config.recipes.local)\<close> is named by the local database.\<close>

definition DB :: "('f, 'b) recipes_env \<Rightarrow> string" where
  "DB env = Config_recipes_local env"

definition getPouchID :: "recipe \<Rightarrow> string" where
  "getPouchID = Indexed_getter doc_id"

definition TagIndexed :: "indexed_action \<Rightarrow> recipes_action" where
  "TagIndexed source = Indexed source"

definition Activate :: "string \<Rightarrow> recipes_action" where
  "Activate = compose TagIndexed Indexed_Activate"

definition TagModal :: "modal_action \<Rightarrow> recipes_action" where
  "TagModal = Modal"

definition TagBanner :: "banner_action \<Rightarrow> recipes_action" where
  "TagBanner source = Banner source"

definition AlertRefreshable :: "string \<Rightarrow> recipes_action" where
  "AlertRefreshable = compose TagBanner Banner_AlertRefreshable"

definition AlertDismissable :: "string \<Rightarrow> recipes_action" where
  "AlertDismissable = compose TagBanner Banner_AlertDismissable"

definition FailRecipeStart :: recipes_action where
  "FailRecipeStart = AlertDismissable ''Blarg! Couldn't start recipe''"

definition RecipesFormAction :: "form_action \<Rightarrow> recipes_action" where
  "RecipesFormAction action =
     (case action of
        Back \<Rightarrow> ActivatePanel None
      | Submitted r \<Rightarrow> Put r
      | _ \<Rightarrow> RecipesForm action)"

definition RecipeAction :: "string \<Rightarrow> recipe_action \<Rightarrow> recipes_action" where
  "RecipeAction id' action =
     (if action = Recipe_Activate then StartByID id' else Recipe id' action)"

definition ByID :: "string \<Rightarrow> recipe_action \<Rightarrow> recipes_action" where
  "ByID id' action = RecipeAction id' action"

definition Open :: recipes_action where "Open = TagModal Modal_Open"
definition Close :: recipes_action where "Close = TagModal Modal_Close"

subsection \<open>The recipes manager: init and update\<close>

definition recipes_init ::
  "('f, 'b) recipes_env \<Rightarrow> ('f, 'b) recipes_model \<times> recipes_action fx" where
  "recipes_init env =
     (case RecipesForm_init env of (recipesForm0, recipesFormFx) \<Rightarrow>
      case Banner_init env of (banner0, bannerFx) \<Rightarrow>
        (\<lparr>active = None, order = [], entries = Map.empty,
          activePanel = None, isOpen = False, origin = None,
          recipesForm = recipesForm0, banner = banner0\<rparr>,
         batch_fx [
           map_fx RecipesFormAction recipesFormFx,
           map_fx TagBanner bannerFx]))"

text \<open>
  The cursors of \<open>Indexed\<close> and \<open>Modal\<close> are built with no \<open>get\<close> and no \<open>set\<close>: the
  child state is the model itself.
\<close>

definition updateIndexed ::
  "('f, 'b) recipes_model \<Rightarrow> indexed_action \<Rightarrow> ('f, 'b) recipes_model \<times> recipes_action fx" where
  "updateIndexed = cursor (\<lambda>model. model) (\<lambda>model next. next) Indexed_update TagIndexed"

definition updateModal ::
  "('f, 'b) recipes_env \<Rightarrow> ('f, 'b) recipes_model \<Rightarrow> modal_action \<Rightarrow>
   ('f, 'b) recipes_model \<times> recipes_action fx" where
  "updateModal env = cursor (\<lambda>model. model) (\<lambda>model next. next) (Modal_update env) TagModal"

definition updateBanner ::
  "('f, 'b) recipes_env \<Rightarrow> ('f, 'b) recipes_model \<Rightarrow> banner_action \<Rightarrow>
   ('f, 'b) recipes_model \<times> recipes_action fx" where
  "updateBanner env =
     cursor banner (\<lambda>model b. model\<lparr>banner := b\<rparr>) (Banner_update env) TagBanner"

definition updateRecipesForm ::
  "('f, 'b) recipes_env \<Rightarrow> ('f, 'b) recipes_model \<Rightarrow> form_action \<Rightarrow>
   ('f, 'b) recipes_model \<times> recipes_action fx" where
  "updateRecipesForm env =
     cursor recipesForm (\<lambda>model f. model\<lparr>recipesForm := f\<rparr>)
       (RecipesForm_update env) RecipesFormAction"

definition updateByID ::
  "('f, 'b) recipes_env \<Rightarrow> ('f, 'b) recipes_model \<Rightarrow> string \<Rightarrow> recipe_action \<Rightarrow>
   ('f, 'b) recipes_model \<times> recipes_action fx" where
  "updateByID env model id' action =
     Indexed_updateWithID (Recipe_update env) (ByID id') model id' action"

definition templateRecipesDatabase :: "('f, 'b) recipes_env \<Rightarrow> string \<Rightarrow> string" where
  "templateRecipesDatabase env origin_url =
     Template_render env (Config_recipes_origin env) [(''origin_url'', origin_url)]"

text \<open>
  \<open>if (model.origin)\<close>: an origin that is \<open>null\<close> or the empty string is falsy. The
  warning logged in that case is not part of the model.
\<close>

definition sync ::
  "('f, 'b) recipes_env \<Rightarrow> ('f, 'b) recipes_model \<Rightarrow> ('f, 'b) recipes_model \<times> recipes_action fx" where
  "sync env model =
     (case origin model of
        None \<Rightarrow> (model, none)
      | Some url \<Rightarrow>
          if url \<noteq> [] then
            (model, map_fx Synced (Database_sync (DB env) (templateRecipesDatabase env url)))
          else (model, none))"

definition activatePanel ::
  "('f, 'b) recipes_model \<Rightarrow> string option \<Rightarrow> ('f, 'b) recipes_model \<times> recipes_action fx" where
  "activatePanel model id' = (model\<lparr>activePanel := id'\<rparr>, none)"

definition put ::
  "('f, 'b) recipes_env \<Rightarrow> ('f, 'b) recipes_model \<Rightarrow> recipe \<Rightarrow>
   ('f, 'b) recipes_model \<times> recipes_action fx" where
  "put env model r =
     (let next = Indexed_add model (doc_id r) r
      in (next, map_fx Putted (Database_put (DB env) r)))"

definition putted ::
  "('f, 'b) recipes_model \<Rightarrow> (put_confirmation, error) result \<Rightarrow>
   ('f, 'b) recipes_model \<times> recipes_action fx" where
  "putted model res =
     (case res of Ok v \<Rightarrow> (model, none) | Error e \<Rightarrow> (model, none))"

text \<open>The rank of an action: those \<open>recipes_update\<close> answers by dispatching another.\<close>

fun recipes_action_rank :: "recipes_action \<Rightarrow> nat" where
  "recipes_action_rank (RestoredRecipes res) = 2"
| "recipes_action_rank (StartByID id') = 2"
| "recipes_action_rank (Synced res) = 2"
| "recipes_action_rank (Configure url) = 2"
| "recipes_action_rank a = 0"

lemma Result_updater_cong [fundef_cong]:
  "model = model' \<Longrightarrow> res = res' \<Longrightarrow>
   (\<And>v. res' = Ok v \<Longrightarrow> ok model' v = ok' model' v) \<Longrightarrow>
   (\<And>e. res' = Error e \<Longrightarrow> err model' e = err' model' e) \<Longrightarrow>
   Result_updater ok err model res = Result_updater ok' err' model' res'"
  by (auto simp: Result_updater_def split: result.splits)

function syncedOk ::
    "('f, 'b) recipes_env \<Rightarrow> ('f, 'b) recipes_model \<Rightarrow> ('f, 'b) recipes_model \<times> recipes_action fx"
  and syncedError ::
    "('f, 'b) recipes_env \<Rightarrow> ('f, 'b) recipes_model \<Rightarrow> ('f, 'b) recipes_model \<times> recipes_action fx"
  and restoredRecipes ::
    "('f, 'b) recipes_env \<Rightarrow> ('f, 'b) recipes_model \<Rightarrow> (recipe list, error) result \<Rightarrow>
     ('f, 'b) recipes_model \<times> recipes_action fx"
  and startByID ::
    "('f, 'b) recipes_env \<Rightarrow> ('f, 'b) recipes_model \<Rightarrow> string \<Rightarrow>
     ('f, 'b) recipes_model \<times> recipes_action fx"
  and configure ::
    "('f, 'b) recipes_env \<Rightarrow> ('f, 'b) recipes_model \<Rightarrow> string \<Rightarrow>
     ('f, 'b) recipes_model \<times> recipes_action fx"
  and recipes_update ::
    "('f, 'b) recipes_env \<Rightarrow> ('f, 'b) recipes_model \<Rightarrow> recipes_action \<Rightarrow>
     ('f, 'b) recipes_model \<times> recipes_action fx"
where
  "syncedOk env model = recipes_update env model RestoreRecipes"
| "syncedError env model =
     (let message = localize env ''Couldn't sync with the cloud. Using local database.''
      in recipes_update env model (AlertDismissable message))"
| "restoredRecipes env model res =
     Result_updater
       (\<lambda>model recipes.
          (model\<lparr>order := map getPouchID recipes,
                 entries := Indexed_indexWith recipes getPouchID\<rparr>,
           none))
       (\<lambda>model err.
          (let message = localize env ''Hmm, couldn't read from your browser's database.''
           in recipes_update env model (AlertRefreshable message)))
       model res"
| "startByID env model id' =
     (case recipes_update env model (Activate id') of
        (next, effect) \<Rightarrow>
          (next, batch_fx [effect, receive (RequestStart (merge_empty (entries model id')))]))"
| "configure env model url =
     (let next = model\<lparr>origin := Some url\<rparr>
      in batch (recipes_update env) next [RestoreRecipes, Sync])"
| "recipes_update env model (Indexed source) = updateIndexed model source"
| "recipes_update env model (Banner source) = updateBanner env model source"
| "recipes_update env model (RecipesForm source) = updateRecipesForm env model source"
| "recipes_update env model (Modal source) = updateModal env model source"
| "recipes_update env model NoOp = (model, none)"
| "recipes_update env model (Put v) = put env model v"
| "recipes_update env model (Putted res) = putted model res"
| "recipes_update env model RestoreRecipes =
     (model, map_fx RestoredRecipes (Database_restore (DB env)))"
| "recipes_update env model (RestoredRecipes res) = restoredRecipes env model res"
| "recipes_update env model (StartByID id') = startByID env model id'"
| "recipes_update env model (ActivatePanel id') = activatePanel model id'"
| "recipes_update env model Sync = sync env model"
| "recipes_update env model (Synced res) =
     (case res of Ok v \<Rightarrow> syncedOk env model | Error e \<Rightarrow> syncedError env model)"
| "recipes_update env model (Recipe id' source) = updateByID env model id' source"
| "recipes_update env model (Configure url) = configure env model url"
| "recipes_update env model (RequestStart v) = Unknown_update model (RequestStart v)"
| "recipes_update env model (Other_recipes t) = Unknown_update model (Other_recipes t)"
  by pat_completeness auto
termination
proof (relation "measure (\<lambda>x. case x of
      Inr (Inr (Inr (env, model, a))) \<Rightarrow> recipes_action_rank a
    | _ \<Rightarrow> 1)", goal_cases)
  case 1
  show ?case by simp
qed (auto simp: Activate_def AlertDismissable_def AlertRefreshable_def compose_def
      TagIndexed_def TagBanner_def)

subsection \<open>\<open>startByID\<close> on a store of objects\<close>

text \<open>
  \<open>startByID\<close> once more, with the objects it handles in a store: \<open>entries_at\<close>
  gives the address of the object stored under each id of \<open>model.entries\<close>. The
  literal \<open>{}\<close> allocates an empty object, \<open>merge\<close> is applied to it and to the
  stored entry, and \<open>RequestStart\<close> carries the object \<open>merge\<close> returns. The result is
  that of \<open>startByID\<close>, with the address of the payload and the store after the call.
\<close>

definition startByID_at ::
  "('f, 'b) recipes_env \<Rightarrow> store \<Rightarrow> (string \<rightharpoonup> address) \<Rightarrow> ('f, 'b) recipes_model \<Rightarrow> string \<Rightarrow>
   (('f, 'b) recipes_model \<times> recipes_action fx) \<times> address \<times> store" where
  "startByID_at env s entries_at model id' =
     (case recipes_update env model (Activate id') of
        (next, effect) \<Rightarrow>
          (case alloc s EmptyObject of
             (blank, s1) \<Rightarrow>
               (case merge_at s1 blank (entries_at id') of
                  (snapshot, s2) \<Rightarrow>
                    ((next, batch_fx [effect, receive (RequestStart (fields_at s2 snapshot))]),
                     snapshot, s2))))"

section \<open>Test doubles and sample inputs\<close>

text \<open>
  The properties below hold for every child module. To run the updates on concrete
  inputs, the child modules are replaced by small stand-ins: a poll without state, a
  series that appends the data points it is given, and a recipe tracker that keeps the
  data point last fed to it by \<open>Start\<close> or \<open>End\<close>.
\<close>

definition tracking_env :: "(unit, data_point list, data_point option) dashboard_env" where
  "tracking_env =
     \<lparr>ORIGIN_LATEST = ''http://db/latest'',
      Poll_init = ((), none),
      Poll_update = (\<lambda>p a. (p, none)),
      CurrentRecipe_init = (None, none),
      CurrentRecipe_update =
        (\<lambda>c a. case a of Start d \<Rightarrow> (d, none) | End d \<Rightarrow> (d, none) | Other_current_recipe t \<Rightarrow> (c, none)),
      LANG = (\<lambda>key. key),
      EnvironmentalDataPoint_init = (\<lambda>v title. ([], none)),
      EnvironmentalDataPoint_update =
        (\<lambda>series a. case a of AddMany ds \<Rightarrow> (series @ ds, none) | Other_edp t \<Rightarrow> (series, none))\<rparr>"

text \<open>
  Two record sets: one whose most recent marker is a recipe end, before a recipe start,
  and one with a recipe end and no recipe start.
\<close>

definition end_then_start :: record_set where
  "end_then_start =
     \<lparr>rows = [\<lparr>row_value = \<lparr>variable = ''recipe_end'', reading = ''r2''\<rparr>\<rparr>,
              \<lparr>row_value = \<lparr>variable = ''recipe_start'', reading = ''r1''\<rparr>\<rparr>]\<rparr>"

definition end_and_air :: record_set where
  "end_and_air =
     \<lparr>rows = [\<lparr>row_value = \<lparr>variable = ''recipe_end'', reading = ''r2''\<rparr>\<rparr>,
              \<lparr>row_value = \<lparr>variable = ''air_temperature'', reading = ''21''\<rparr>\<rparr>]\<rparr>"

text \<open>
  The stand-ins of the recipes manager: a form without state, a banner that keeps the
  messages it is asked to show, a modal that sets \<open>isOpen\<close>, and recipes that ignore
  their actions. The template puts the origin before the path of the database.
\<close>

definition test_recipes_env :: "(unit, string list) recipes_env" where
  "test_recipes_env =
     \<lparr>Config_recipes_local = ''recipes'',
      Config_recipes_origin = ''/recipes'',
      Template_render = (\<lambda>template context. concat (map snd context) @ template),
      localize = (\<lambda>text. text),
      RecipesForm_init = ((), none),
      RecipesForm_update = (\<lambda>form a. (form, none)),
      Banner_init = ([], none),
      Banner_update =
        (\<lambda>alerts a. case a of
           Banner_AlertRefreshable message \<Rightarrow> (alerts @ [message], none)
         | Banner_AlertDismissable message \<Rightarrow> (alerts @ [message], none)
         | Other_banner t \<Rightarrow> (alerts, none)),
      Modal_update = (\<lambda>model a. (model\<lparr>isOpen := (a = Modal_Open)\<rparr>, none)),
      Recipe_update = (\<lambda>entry a. (entry, none))\<rparr>"

text \<open>
  A model with the entries \<open>x\<close> and \<open>y\<close>, \<open>y\<close> being active, and a store that holds
  their objects at the addresses 0 and 1.
\<close>

definition sample_store :: store where
  "sample_store = [Copy \<lparr>doc_id = ''x'', doc_body = ''basil''\<rparr>,
                   Copy \<lparr>doc_id = ''y'', doc_body = ''kale''\<rparr>]"

definition sample_model :: "(unit, string list) recipes_model" where
  "sample_model =
     (fst (recipes_init test_recipes_env))
       \<lparr>active := Some ''y'', order := [''x'', ''y''],
        entries := [''x'' \<mapsto> \<lparr>doc_id = ''x'', doc_body = ''basil''\<rparr>,
                    ''y'' \<mapsto> \<lparr>doc_id = ''y'', doc_body = ''kale''\<rparr>]\<rparr>"

definition sample_entries_at :: "string \<rightharpoonup> address" where
  "sample_entries_at = [''x'' \<mapsto> 0, ''y'' \<mapsto> 1]"

text \<open>
  The words of the specification for what a restore feeds to the recipe tracker: "the
  most recent recipe-start/recipe-end marker" is the first data point that is a recipe
  start or a recipe end.
\<close>

definition spec_isRecipeMarker :: "data_point \<Rightarrow> bool" where
  "spec_isRecipeMarker d = (isRecipeStart d \<or> isRecipeEnd d)"

section \<open>Unfolding rules and facts about the helpers\<close>

lemma shift_filter_find: "shift (filter P xs) = find P xs"
  by (induction xs) (auto simp: shift_def)

lemmas dashboard_unfold =
  PongPoll_def MissPoll_def PollAction_def AddManyAirTemperatures_def
  AddManyWaterTemperatures_def CurrentRecipeStart_def CurrentRecipeEnd_def compose_def
  AirTemperatureAction_def WaterTemperatureAction_def CurrentRecipeAction_def
  readDataPoints_def readMostRecentDataPoint_def readDataPointFromRow_def [abs_def]
  isAirTemperature_def isWaterTemperature_def isRecipeStart_def isRecipeEnd_def
  matcher_def [abs_def] RECIPE_START_def RECIPE_END_def AIR_TEMPERATURE_def WATER_TEMPERATURE_def
  shift_filter_find

lemmas cursors_unfold =
  updatePoll_def updateAirTemperature_def updateWaterTemperature_def updateCurrentRecipe_def
  cursor_def batch_def

lemmas recipes_unfold =
  Activate_def AlertDismissable_def AlertRefreshable_def compose_def
  TagIndexed_def [abs_def] TagBanner_def [abs_def] TagModal_def getPouchID_def Indexed_getter_def [abs_def]
  Database_put_def Database_restore_def Database_sync_def comp_def

text \<open>What the modelled helpers compute, written out.\<close>

lemma batch_two:
  "batch update model [a, b] =
     (case update model a of (state1, effect1) \<Rightarrow>
      case update state1 b of (state2, effect2) \<Rightarrow>
        (state2, batch_fx [effect1, effect2]))"
  by (simp add: batch_def split: prod.splits)

lemma Indexed_add_invariant:
  "distinct (order model) \<Longrightarrow> set (order model) = dom (entries model) \<Longrightarrow>
   distinct (order (Indexed_add model id' entry))
   \<and> set (order (Indexed_add model id' entry)) = dom (entries (Indexed_add model id' entry))
   \<and> entries (Indexed_add model id' entry) id' = Some entry"
  by (auto simp: Indexed_add_def)

lemma Indexed_updateWithID_absent:
  "entries model id' = None \<Longrightarrow>
   Indexed_updateWithID update tag model id' action = (model, none)"
  by (simp add: Indexed_updateWithID_def)

lemma indexWith_snoc:
  "Indexed_indexWith (entities @ [entity]) keyFn =
     (Indexed_indexWith entities keyFn)(keyFn entity \<mapsto> entity)"
  by (simp add: Indexed_indexWith_def)

lemma indexWith_find:
  "Indexed_indexWith entities keyFn k = find (\<lambda>entity. keyFn entity = k) (rev entities)"
proof (induction entities rule: rev_induct)
  case Nil
  show ?case by (simp add: Indexed_indexWith_def)
next
  case (snoc entity entities)
  then show ?case by (simp add: indexWith_snoc)
qed

lemma dom_indexWith: "dom (Indexed_indexWith entities keyFn) = keyFn ` set entities"
  by (auto simp: dom_def indexWith_find find_None_iff)

lemma indexWith_distinct:
  "distinct (map keyFn entities) \<Longrightarrow> entity \<in> set entities \<Longrightarrow>
   Indexed_indexWith entities keyFn (keyFn entity) = Some entity"
proof (induction entities rule: rev_induct)
  case Nil
  then show ?case by simp
next
  case (snoc e entities)
  show ?case
  proof (cases "entity = e")
    case True
    then show ?thesis by (simp add: indexWith_snoc)
  next
    case False
    with snoc.prems have mem: "entity \<in> set entities" by simp
    from snoc.prems have dist: "distinct (map keyFn entities)"
      and fresh: "keyFn e \<notin> keyFn ` set entities" by simp_all
    from mem have "keyFn entity \<in> keyFn ` set entities" by (rule imageI)
    with fresh have "keyFn entity \<noteq> keyFn e" by metis
    with snoc.IH [OF dist mem] show ?thesis by (simp add: indexWith_snoc)
  qed
qed

section \<open>Properties of the dashboard\<close>

text \<open>
  Claim C1, as stated: \<open>Got\<close> with an \<open>Ok\<close> result batches a \<open>Restore\<close> of the record
  set and a \<open>Pong\<close> for the poll, and the restore feeds the most recent recipe-start or
  recipe-end marker to the recipe tracker. This fails on a record set whose first marker
  is a recipe end followed by a recipe start: the tracker is fed the recipe start, while
  the most recent marker is the recipe end.
\<close>

theorem C1_counterexample:
  "restore tracking_env (fst (dashboard_init tracking_env)) end_then_start =
     batch (dashboard_update tracking_env) (fst (dashboard_init tracking_env))
       [AirTemperature (AddMany []),
        WaterTemperature (AddMany []),
        CurrentRecipe (Start (Some \<lparr>variable = ''recipe_start'', reading = ''r1''\<rparr>))]
   \<and> currentRecipe (fst (dashboard_update tracking_env (fst (dashboard_init tracking_env))
      (Got (Ok end_then_start))))
     = Some \<lparr>variable = ''recipe_start'', reading = ''r1''\<rparr>
   \<and> readMostRecentDataPoint end_then_start spec_isRecipeMarker
     = Some \<lparr>variable = ''recipe_end'', reading = ''r2''\<rparr>
   \<and> currentRecipe (fst (dashboard_update tracking_env (fst (dashboard_init tracking_env))
      (Got (Ok end_then_start))))
     \<noteq> readMostRecentDataPoint end_then_start spec_isRecipeMarker"
  by (simp add: tracking_env_def end_then_start_def dashboard_init_def dashboard_unfold
      cursors_unfold spec_isRecipeMarker_def shift_def)

text \<open>
  Claim C1, amended: for every dashboard model and every record set, \<open>Got\<close> with an
  \<open>Ok\<close> result returns what batching \<open>Restore\<close> of the record set and \<open>Pong\<close> for the
  poll returns; \<open>Restore\<close> batches the data points whose \<open>variable\<close> is
  \<open>air_temperature\<close> for the air series, those whose \<open>variable\<close> is
  \<open>water_temperature\<close> for the water series, and \<open>Start\<close> of the first data point
  whose \<open>variable\<close> is \<open>recipe_start\<close> (\<open>undefined\<close> when there is none) for the
  recipe tracker; recipe-end rows are not read. The next model is the input model with
  the four children updated by these actions.
\<close>

theorem C1_got_ok_restore_then_pong:
  "dashboard_update env model (Got (Ok record)) =
     batch (dashboard_update env) model [Restore record, Poll Pong]
   \<and> dashboard_update env model (Restore record) =
     batch (dashboard_update env) model
       [AirTemperature (AddMany
          (filter (\<lambda>d. variable d = ''air_temperature'') (map row_value (rows record)))),
        WaterTemperature (AddMany
          (filter (\<lambda>d. variable d = ''water_temperature'') (map row_value (rows record)))),
        CurrentRecipe (Start
          (find (\<lambda>d. variable d = ''recipe_start'') (map row_value (rows record))))]
   \<and> fst (dashboard_update env model (Got (Ok record))) =
     model\<lparr>airTemperature :=
             fst (EnvironmentalDataPoint_update env (airTemperature model) (AddMany
               (filter (\<lambda>d. variable d = ''air_temperature'') (map row_value (rows record))))),
           waterTemperature :=
             fst (EnvironmentalDataPoint_update env (waterTemperature model) (AddMany
               (filter (\<lambda>d. variable d = ''water_temperature'') (map row_value (rows record))))),
           currentRecipe :=
             fst (CurrentRecipe_update env (currentRecipe model) (Start
               (find (\<lambda>d. variable d = ''recipe_start'') (map row_value (rows record))))),
           poll := fst (Poll_update env (poll model) Pong)\<rparr>"
proof -
  have got: "dashboard_update env model (Got (Ok record)) =
      batch (dashboard_update env) model [Restore record, Poll Pong]"
    by (simp add: PongPoll_def PollAction_def)
  have rest: "dashboard_update env m (Restore record) =
     batch (dashboard_update env) m
       [AirTemperature (AddMany
          (filter (\<lambda>d. variable d = ''air_temperature'') (map row_value (rows record)))),
        WaterTemperature (AddMany
          (filter (\<lambda>d. variable d = ''water_temperature'') (map row_value (rows record)))),
        CurrentRecipe (Start
          (find (\<lambda>d. variable d = ''recipe_start'') (map row_value (rows record))))]" for m
    by (simp add: dashboard_unfold)
  have state: "fst (batch (dashboard_update env) model [Restore record, Poll Pong]) =
     model\<lparr>airTemperature :=
             fst (EnvironmentalDataPoint_update env (airTemperature model) (AddMany
               (filter (\<lambda>d. variable d = ''air_temperature'') (map row_value (rows record))))),
           waterTemperature :=
             fst (EnvironmentalDataPoint_update env (waterTemperature model) (AddMany
               (filter (\<lambda>d. variable d = ''water_temperature'') (map row_value (rows record))))),
           currentRecipe :=
             fst (CurrentRecipe_update env (currentRecipe model) (Start
               (find (\<lambda>d. variable d = ''recipe_start'') (map row_value (rows record))))),
           poll := fst (Poll_update env (poll model) Pong)\<rparr>"
    unfolding batch_def batch_loop.simps rest [unfolded batch_def batch_loop.simps]
    by (simp add: updatePoll_def updateAirTemperature_def updateWaterTemperature_def
        updateCurrentRecipe_def cursor_def split_beta)
  show ?thesis using got rest [of model] state by simp
qed

text \<open>
  Claim C7: for every dashboard model and every error, \<open>Got\<close> with an \<open>Error\<close> result
  routes \<open>Miss\<close> to the poll child only: the next model is the model with its \<open>poll\<close>
  field replaced by what \<open>Poll.update\<close> returns on \<open>Miss\<close>, and \<open>airTemperature\<close>,
  \<open>waterTemperature\<close> and \<open>currentRecipe\<close> are those of the input model.
\<close>

theorem C7_got_error_miss_poll_only:
  "dashboard_update env model (Got (Error e)) =
     (model\<lparr>poll := fst (Poll_update env (poll model) Miss)\<rparr>,
      map_fx (PollAction env) (snd (Poll_update env (poll model) Miss)))
   \<and> airTemperature (fst (dashboard_update env model (Got (Error e)))) = airTemperature model
   \<and> waterTemperature (fst (dashboard_update env model (Got (Error e)))) = waterTemperature model
   \<and> currentRecipe (fst (dashboard_update env model (Got (Error e)))) = currentRecipe model"
  by (simp add: MissPoll_def PollAction_def updatePoll_def cursor_def split: prod.splits)

text \<open>
  Claim C8: for every record set and every predicate, \<open>readMostRecentDataPoint\<close>
  returns the first element of the sequence obtained by mapping each row to its
  \<open>value\<close> and filtering by the predicate, \<open>undefined\<close> when that sequence is empty.
  The result is the first match in row order, whatever the data points hold: the
  function compares nothing and relies on the order of the rows.
\<close>

theorem C8_readMostRecentDataPoint_first_match:
  "readMostRecentDataPoint record predicate =
     (case filter predicate (map row_value (rows record)) of
        [] \<Rightarrow> None
      | first # others \<Rightarrow> Some first)
   \<and> readMostRecentDataPoint record predicate = find predicate (map row_value (rows record))"
  unfolding readMostRecentDataPoint_def
  by (simp add: shift_filter_find [symmetric] shift_def readDataPointFromRow_def [abs_def])

text \<open>
  Claim C10: \<open>restore\<close> batches exactly three actions, none of which is a recipe end,
  whatever the record set holds. When no row of the record set has the variable
  \<open>recipe_start\<close>, the third action is still \<open>Start\<close>, with \<open>undefined\<close> as its
  payload, and the recipe tracker is updated with it.
\<close>

theorem C10_restore_start_undefined_no_end:
  "restore env model record =
     batch (dashboard_update env) model
       [AddManyAirTemperatures (readDataPoints record isAirTemperature),
        AddManyWaterTemperatures (readDataPoints record isWaterTemperature),
        CurrentRecipeStart (readMostRecentDataPoint record isRecipeStart)]
   \<and> CurrentRecipeEnd d \<notin> set
       [AddManyAirTemperatures (readDataPoints record isAirTemperature),
        AddManyWaterTemperatures (readDataPoints record isWaterTemperature),
        CurrentRecipeStart (readMostRecentDataPoint record isRecipeStart)]
   \<and> ((\<forall>r \<in> set (rows record). variable (row_value r) \<noteq> ''recipe_start'') \<longrightarrow>
        readMostRecentDataPoint record isRecipeStart = None
        \<and> CurrentRecipeStart (readMostRecentDataPoint record isRecipeStart)
            = CurrentRecipe (Start None)
        \<and> currentRecipe (fst (restore env model record))
            = fst (CurrentRecipe_update env (currentRecipe model) (Start None)))"
proof -
  have none: "readMostRecentDataPoint record isRecipeStart = None"
    if "\<forall>r \<in> set (rows record). variable (row_value r) \<noteq> ''recipe_start''"
    using that by (auto simp: dashboard_unfold find_None_iff shift_def)
  have tracker: "currentRecipe (fst (restore env model record))
            = fst (CurrentRecipe_update env (currentRecipe model)
                (Start (readMostRecentDataPoint record isRecipeStart)))"
    by (simp add: cursors_unfold AddManyAirTemperatures_def
        AddManyWaterTemperatures_def CurrentRecipeStart_def compose_def
        AirTemperatureAction_def WaterTemperatureAction_def CurrentRecipeAction_def split_beta)
  have no_end: "CurrentRecipeEnd d \<notin> set
       [AddManyAirTemperatures (readDataPoints record isAirTemperature),
        AddManyWaterTemperatures (readDataPoints record isWaterTemperature),
        CurrentRecipeStart (readMostRecentDataPoint record isRecipeStart)]"
    by (simp add: AddManyAirTemperatures_def
        AddManyWaterTemperatures_def CurrentRecipeStart_def CurrentRecipeEnd_def compose_def
        AirTemperatureAction_def WaterTemperatureAction_def CurrentRecipeAction_def)
  show ?thesis
  proof (intro conjI impI)
    show "restore env model record =
       batch (dashboard_update env) model
         [AddManyAirTemperatures (readDataPoints record isAirTemperature),
          AddManyWaterTemperatures (readDataPoints record isWaterTemperature),
          CurrentRecipeStart (readMostRecentDataPoint record isRecipeStart)]"
      by simp
    show "CurrentRecipeEnd d \<notin> set
         [AddManyAirTemperatures (readDataPoints record isAirTemperature),
          AddManyWaterTemperatures (readDataPoints record isWaterTemperature),
          CurrentRecipeStart (readMostRecentDataPoint record isRecipeStart)]"
      by (rule no_end)
    assume no_start: "\<forall>r \<in> set (rows record). variable (row_value r) \<noteq> ''recipe_start''"
    show "readMostRecentDataPoint record isRecipeStart = None"
      by (rule none [OF no_start])
    show "CurrentRecipeStart (readMostRecentDataPoint record isRecipeStart)
            = CurrentRecipe (Start None)"
      by (simp add: none [OF no_start] CurrentRecipeStart_def compose_def CurrentRecipeAction_def)
    show "currentRecipe (fst (restore env model record))
            = fst (CurrentRecipe_update env (currentRecipe model) (Start None))"
      using tracker by (simp only: none [OF no_start])
  qed
qed

text \<open>
  A run of C10: a record set with a recipe end, an air temperature and no recipe start,
  on a tracker that holds a recipe start. The restore overwrites it with \<open>undefined\<close>.
\<close>

theorem C10_witness:
  "list_all (\<lambda>r. variable (row_value r) \<noteq> ''recipe_start'') (rows end_and_air)
   \<and> list_ex (\<lambda>r. variable (row_value r) = ''recipe_end'') (rows end_and_air)
   \<and> readMostRecentDataPoint end_and_air isRecipeStart = None
   \<and> currentRecipe (fst (restore tracking_env
        ((fst (dashboard_init tracking_env))\<lparr>currentRecipe :=
           Some \<lparr>variable = ''recipe_start'', reading = ''r0''\<rparr>\<rparr>) end_and_air)) = None"
  using C10_restore_start_undefined_no_end [of tracking_env
        "(fst (dashboard_init tracking_env))\<lparr>currentRecipe :=
           Some \<lparr>variable = ''recipe_start'', reading = ''r0''\<rparr>\<rparr>" end_and_air]
  by (simp add: end_and_air_def tracking_env_def dashboard_init_def dashboard_unfold
      cursors_unfold)

section \<open>Properties of the recipes manager\<close>

text \<open>
  Claim C2: for every model, \<open>RestoredRecipes\<close> with an \<open>Ok\<close> result replaces \<open>order\<close>
  by the \<open>_id\<close> of each record in sequence order and \<open>entries\<close> by the mapping from
  these ids to their records, and issues no effect. The keys of the new \<open>entries\<close> are
  the ids of the records and no other; each id is mapped to the last record that has it,
  so that with distinct ids every record is stored under its id. With an \<open>Error\<close>
  result, the update is that of the banner on a refreshable alert: \<open>order\<close> and
  \<open>entries\<close> are those of the input model.
\<close>

theorem C2_restoredRecipes_replace_or_alert:
  "recipes_update env model (RestoredRecipes (Ok records)) =
     (model\<lparr>order := map doc_id records, entries := Indexed_indexWith records doc_id\<rparr>, none)
   \<and> order (fst (recipes_update env model (RestoredRecipes (Ok records)))) = map doc_id records
   \<and> entries (fst (recipes_update env model (RestoredRecipes (Ok records)))) k
       = find (\<lambda>r. doc_id r = k) (rev records)
   \<and> dom (entries (fst (recipes_update env model (RestoredRecipes (Ok records)))))
       = set (map doc_id records)
   \<and> (distinct (map doc_id records) \<longrightarrow>
        (\<forall>r \<in> set records.
           entries (fst (recipes_update env model (RestoredRecipes (Ok records)))) (doc_id r)
             = Some r))
   \<and> recipes_update env model (RestoredRecipes (Error e)) =
     (model\<lparr>banner := fst (Banner_update env (banner model) (Banner_AlertRefreshable
        (localize env ''Hmm, couldn't read from your browser's database.'')))\<rparr>,
      map_fx Banner (snd (Banner_update env (banner model) (Banner_AlertRefreshable
        (localize env ''Hmm, couldn't read from your browser's database.'')))))
   \<and> recipes_update env model (RestoredRecipes (Error e)) =
     recipes_update env model (AlertRefreshable
       (localize env ''Hmm, couldn't read from your browser's database.''))
   \<and> order (fst (recipes_update env model (RestoredRecipes (Error e)))) = order model
   \<and> entries (fst (recipes_update env model (RestoredRecipes (Error e)))) = entries model"
proof -
  have alert: "recipes_update env model (RestoredRecipes (Error e)) =
     recipes_update env model (AlertRefreshable
       (localize env ''Hmm, couldn't read from your browser's database.''))"
    by (simp add: Result_updater_def Let_def)
  have ok: "recipes_update env model (RestoredRecipes (Ok records)) =
     (model\<lparr>order := map doc_id records, entries := Indexed_indexWith records doc_id\<rparr>, none)"
    by (simp add: Result_updater_def recipes_unfold)
  have err: "recipes_update env model (RestoredRecipes (Error e)) =
     (model\<lparr>banner := fst (Banner_update env (banner model) (Banner_AlertRefreshable
        (localize env ''Hmm, couldn't read from your browser's database.'')))\<rparr>,
      map_fx Banner (snd (Banner_update env (banner model) (Banner_AlertRefreshable
        (localize env ''Hmm, couldn't read from your browser's database.'')))))"
    by (simp add: Result_updater_def recipes_unfold updateBanner_def cursor_def split_beta
        Let_def)
  have each: "distinct (map doc_id records) \<longrightarrow>
      (\<forall>r \<in> set records. Indexed_indexWith records doc_id (doc_id r) = Some r)"
    by (simp add: indexWith_distinct)
  show ?thesis
    unfolding alert [symmetric] ok err
    using each indexWith_find [of records doc_id k]
    by (simp add: dom_indexWith)
qed

text \<open>
  A run of C2, the scenario of the specification: records \<open>a\<close> and \<open>b\<close> restored on
  the initial model.
\<close>

theorem C2_witness:
  "distinct (map doc_id [\<lparr>doc_id = ''a'', doc_body = ''A''\<rparr>, \<lparr>doc_id = ''b'', doc_body = ''B''\<rparr>])
   \<and> order (fst (recipes_update test_recipes_env (fst (recipes_init test_recipes_env))
      (RestoredRecipes (Ok [\<lparr>doc_id = ''a'', doc_body = ''A''\<rparr>, \<lparr>doc_id = ''b'', doc_body = ''B''\<rparr>]))))
     = [''a'', ''b'']
   \<and> entries (fst (recipes_update test_recipes_env (fst (recipes_init test_recipes_env))
      (RestoredRecipes (Ok [\<lparr>doc_id = ''a'', doc_body = ''A''\<rparr>, \<lparr>doc_id = ''b'', doc_body = ''B''\<rparr>]))))
      ''b'' = Some \<lparr>doc_id = ''b'', doc_body = ''B''\<rparr>
   \<and> entries (fst (recipes_update test_recipes_env (fst (recipes_init test_recipes_env))
      (RestoredRecipes (Ok [\<lparr>doc_id = ''a'', doc_body = ''A''\<rparr>, \<lparr>doc_id = ''b'', doc_body = ''B''\<rparr>]))))
      ''a'' = Some \<lparr>doc_id = ''a'', doc_body = ''A''\<rparr>"
  using C2_restoredRecipes_replace_or_alert [of test_recipes_env
      "fst (recipes_init test_recipes_env)"
      "[\<lparr>doc_id = ''a'', doc_body = ''A''\<rparr>, \<lparr>doc_id = ''b'', doc_body = ''B''\<rparr>]"]
  by (simp add: Result_updater_def recipes_unfold Indexed_indexWith_def recipes_init_def)

text \<open>
  Claim C3: for every model and every recipe, \<open>Put\<close> returns at once the model with
  the recipe stored under its \<open>_id\<close>, the other entries as they were, and the \<open>_id\<close>
  appended to \<open>order\<close> if no entity was stored under it (which, when \<open>order\<close> lists
  the keys of \<open>entries\<close>, is: if it was not in \<open>order\<close>). The effect is one database
  write of that recipe, whose result comes back as \<open>Putted\<close>.
\<close>

theorem C3_put_optimistic:
  "recipes_update env model (Put r) = (Indexed_add model (doc_id r) r, db_put (DB env) r Putted)
   \<and> entries (fst (recipes_update env model (Put r))) = (entries model)(doc_id r \<mapsto> r)
   \<and> entries (fst (recipes_update env model (Put r))) (doc_id r) = Some r
   \<and> order (fst (recipes_update env model (Put r))) =
       (if entries model (doc_id r) = None then order model @ [doc_id r] else order model)
   \<and> (set (order model) = dom (entries model) \<longrightarrow>
        order (fst (recipes_update env model (Put r))) =
          (if doc_id r \<in> set (order model) then order model else order model @ [doc_id r]))
   \<and> fx_leaves (snd (recipes_update env model (Put r))) = [db_put (DB env) r Putted]"
  by (auto simp: put_def Indexed_add_def recipes_unfold)

text \<open>
  A run of C3, the scenario of the specification: \<open>Put\<close> of the recipe \<open>r1\<close> on the
  initial model.
\<close>

theorem C3_witness:
  "set (order (fst (recipes_init test_recipes_env)))
     = dom (entries (fst (recipes_init test_recipes_env)))
   \<and> entries (fst (recipes_update test_recipes_env (fst (recipes_init test_recipes_env))
        (Put \<lparr>doc_id = ''r1'', doc_body = ''lettuce''\<rparr>))) ''r1''
       = Some \<lparr>doc_id = ''r1'', doc_body = ''lettuce''\<rparr>
   \<and> order (fst (recipes_update test_recipes_env (fst (recipes_init test_recipes_env))
        (Put \<lparr>doc_id = ''r1'', doc_body = ''lettuce''\<rparr>))) = [''r1'']
   \<and> snd (recipes_update test_recipes_env (fst (recipes_init test_recipes_env))
        (Put \<lparr>doc_id = ''r1'', doc_body = ''lettuce''\<rparr>))
       = db_put ''recipes'' \<lparr>doc_id = ''r1'', doc_body = ''lettuce''\<rparr> Putted"
  using C3_put_optimistic [of test_recipes_env "fst (recipes_init test_recipes_env)"
      "\<lparr>doc_id = ''r1'', doc_body = ''lettuce''\<rparr>"]
  by (simp add: recipes_init_def test_recipes_env_def DB_def put_def Indexed_add_def
      recipes_unfold)

text \<open>
  Claim C4: for every model and every \<open>Putted\<close> result, \<open>Ok\<close> or \<open>Error\<close>, the update
  returns the model unchanged and no effect: nothing is rolled back, no banner action is
  dispatched and nothing is issued.
\<close>

theorem C4_putted_swallowed:
  "recipes_update env model (Putted res) = (model, none)"
  by (cases res) (simp_all add: putted_def)

text \<open>
  Claim C5, as stated: for every model, \<open>Configure (origin)\<close> issues a restore request
  and a sync request. This fails for the empty origin: \<open>sync\<close> tests \<open>model.origin\<close>,
  which the empty string fails, and issues nothing.
\<close>

theorem C5_counterexample:
  "\<not> issues_sync (snd (recipes_update test_recipes_env (fst (recipes_init test_recipes_env))
      (Configure '''')))"
  by (simp add: issues_sync_def batch_def sync_def recipes_unfold)

text \<open>
  Claim C5, amended: for every model, \<open>Configure (origin)\<close> returns the model with its
  \<open>origin\<close> set to the given origin and issues a restore request on the database; when
  the origin is not the empty string, the effect is the batch of that restore request
  and of the sync request with the remote database of the origin, in this order; when
  it is empty, the batch holds the restore request and no sync request.
\<close>

theorem C5_configure_restore_and_sync:
  "fst (recipes_update env model (Configure url)) = model\<lparr>origin := Some url\<rparr>
   \<and> origin (fst (recipes_update env model (Configure url))) = Some url
   \<and> issues_restore (snd (recipes_update env model (Configure url)))
   \<and> (url \<noteq> [] \<longrightarrow>
        snd (recipes_update env model (Configure url)) =
          batch_fx [db_restore (DB env) RestoredRecipes,
                    db_sync (DB env) (templateRecipesDatabase env url) Synced]
        \<and> issues_sync (snd (recipes_update env model (Configure url))))
   \<and> (url = [] \<longrightarrow>
        snd (recipes_update env model (Configure url)) =
          batch_fx [db_restore (DB env) RestoredRecipes, none])"
  by (simp add: issues_sync_def issues_restore_def batch_def sync_def recipes_unfold Let_def)

text \<open>
  A run of C5, the scenario of the specification: \<open>Configure\<close> with the origin
  \<open>http://origin\<close> on the initial model.
\<close>

theorem C5_witness:
  "''http://origin'' \<noteq> []
   \<and> origin (fst (recipes_update test_recipes_env (fst (recipes_init test_recipes_env))
        (Configure ''http://origin''))) = Some ''http://origin''
   \<and> snd (recipes_update test_recipes_env (fst (recipes_init test_recipes_env))
        (Configure ''http://origin'')) =
      batch_fx [db_restore ''recipes'' RestoredRecipes,
                db_sync ''recipes'' ''http://origin/recipes'' Synced]"
  using C5_configure_restore_and_sync [of test_recipes_env "fst (recipes_init test_recipes_env)"
      "''http://origin''"]
  by (simp add: test_recipes_env_def DB_def templateRecipesDatabase_def)

text \<open>
  Claim C6: for every model and every id under which an entry is stored, \<open>StartByID\<close>
  returns the model with \<open>active\<close> set to that id, whatever was active before, and
  queues one action: \<open>RequestStart\<close> with a copy of the entry. On a store that holds
  the entry at some address, the payload is an object allocated by the call: its address
  is not that of the stored entry nor of any object that existed before, it holds the
  fields of the entry, and the stored objects are as they were.
\<close>

theorem C6_startByID_activates_and_requests_start:
  "entries model id' = Some entry \<Longrightarrow>
   recipes_update env model (StartByID id') =
     (model\<lparr>active := Some id'\<rparr>, batch_fx [none, receive (RequestStart (Copy entry))])
   \<and> active (fst (recipes_update env model (StartByID id'))) = Some id'
   \<and> entries (fst (recipes_update env model (StartByID id'))) = entries model
   \<and> fx_leaves (snd (recipes_update env model (StartByID id')))
       = [receive (RequestStart (merge_empty (entries model id')))]
   \<and> (entries_at id' = Some a \<and> a < length s \<and> s ! a = Copy entry \<longrightarrow>
        (case startByID_at env s entries_at model id' of
           (result, payload, s') \<Rightarrow>
             result = recipes_update env model (StartByID id')
             \<and> payload \<noteq> a
             \<and> length s \<le> payload
             \<and> payload < length s'
             \<and> s' ! payload = Copy entry
             \<and> take (length s) s' = s
             \<and> s' ! a = Copy entry))"
proof -
  assume stored: "entries model id' = Some entry"
  have val: "recipes_update env model (StartByID id') =
     (model\<lparr>active := Some id'\<rparr>, batch_fx [none, receive (RequestStart (Copy entry))])"
    using stored by (simp add: updateIndexed_def cursor_def merge_empty_def recipes_unfold)
  have act: "recipes_update env model (Activate id') = (model\<lparr>active := Some id'\<rparr>, none)"
    by (simp add: updateIndexed_def cursor_def recipes_unfold)
  have at: "startByID_at env s entries_at model id' =
      ((model\<lparr>active := Some id'\<rparr>, batch_fx [none, receive (RequestStart (Copy entry))]),
       Suc (length s), s @ [EmptyObject, Copy entry])"
    if "entries_at id' = Some a" "a < length s" "s ! a = Copy entry"
    using that
    by (simp add: startByID_at_def act alloc_def merge_at_def fields_at_def overlay_def
        nth_append)
  show ?thesis
    unfolding val
    using stored
    by (auto simp: at merge_empty_def nth_append)
qed

text \<open>
  A run of C6: \<open>StartByID\<close> of \<open>x\<close> on the sample model and store. The payload is the
  object at address 3, after the empty object of the literal at address 2.
\<close>

theorem C6_witness:
  "entries sample_model ''x'' = Some \<lparr>doc_id = ''x'', doc_body = ''basil''\<rparr>
   \<and> sample_entries_at ''x'' = Some 0
   \<and> 0 < length sample_store
   \<and> sample_store ! 0 = Copy \<lparr>doc_id = ''x'', doc_body = ''basil''\<rparr>
   \<and> active sample_model = Some ''y''
   \<and> active (fst (recipes_update test_recipes_env sample_model (StartByID ''x''))) = Some ''x''
   \<and> snd (recipes_update test_recipes_env sample_model (StartByID ''x''))
     = batch_fx [none, receive (RequestStart (Copy \<lparr>doc_id = ''x'', doc_body = ''basil''\<rparr>))]
   \<and> startByID_at test_recipes_env sample_store sample_entries_at sample_model ''x''
     = (recipes_update test_recipes_env sample_model (StartByID ''x''),
        3,
        sample_store @ [EmptyObject, Copy \<lparr>doc_id = ''x'', doc_body = ''basil''\<rparr>])
   \<and> fst (snd (startByID_at test_recipes_env sample_store sample_entries_at sample_model ''x''))
     \<noteq> 0"
proof -
  have stored: "entries sample_model ''x'' = Some \<lparr>doc_id = ''x'', doc_body = ''basil''\<rparr>"
    by (simp add: sample_model_def)
  have place: "sample_entries_at ''x'' = Some 0"
    by (simp add: sample_entries_at_def)
  have live: "0 < length sample_store"
    by (simp add: sample_store_def)
  have cell: "sample_store ! 0 = Copy \<lparr>doc_id = ''x'', doc_body = ''basil''\<rparr>"
    by (simp add: sample_store_def)
  have before: "active sample_model = Some ''y''"
    by (simp add: sample_model_def)
  note run = C6_startByID_activates_and_requests_start [OF stored,
      where env = test_recipes_env and entries_at = sample_entries_at and a = 0
        and s = sample_store]
  from run have val: "recipes_update test_recipes_env sample_model (StartByID ''x'') =
     (sample_model\<lparr>active := Some ''x''\<rparr>,
      batch_fx [none, receive (RequestStart (Copy \<lparr>doc_id = ''x'', doc_body = ''basil''\<rparr>))])"
    by (rule conjunct1)
  have at: "startByID_at test_recipes_env sample_store sample_entries_at sample_model ''x''
     = (recipes_update test_recipes_env sample_model (StartByID ''x''),
        3,
        sample_store @ [EmptyObject, Copy \<lparr>doc_id = ''x'', doc_body = ''basil''\<rparr>])"
    unfolding val
    by (simp add: startByID_at_def alloc_def merge_at_def fields_at_def overlay_def
        updateIndexed_def cursor_def recipes_unfold place sample_store_def)
  from run have "sample_entries_at ''x'' = Some 0 \<and> 0 < length sample_store
      \<and> sample_store ! 0 = Copy \<lparr>doc_id = ''x'', doc_body = ''basil''\<rparr> \<longrightarrow>
      (case startByID_at test_recipes_env sample_store sample_entries_at sample_model ''x'' of
         (result, payload, s') \<Rightarrow>
           result = recipes_update test_recipes_env sample_model (StartByID ''x'')
           \<and> payload \<noteq> 0
           \<and> length sample_store \<le> payload
           \<and> payload < length s'
           \<and> s' ! payload = Copy \<lparr>doc_id = ''x'', doc_body = ''basil''\<rparr>
           \<and> take (length sample_store) s' = sample_store
           \<and> s' ! 0 = Copy \<lparr>doc_id = ''x'', doc_body = ''basil''\<rparr>)"
    by (elim conjE) assumption
  with place live cell
  have other: "fst (snd (startByID_at test_recipes_env sample_store sample_entries_at
      sample_model ''x'')) \<noteq> 0"
    by (simp add: split_beta)
  show ?thesis
    unfolding at val
    using stored place live cell before other [unfolded at]
    by simp
qed

text \<open>
  Claim C9: the action mapper of the recipes form rewrites a \<open>Submitted\<close> action into
  \<open>Put (action.recipe)\<close>, not into a tagged \<open>RecipesForm\<close> action, so that the update
  answers it with \<open>put\<close>: the local insert and the database write. It rewrites \<open>Back\<close>
  into \<open>ActivatePanel (null)\<close>. An effect of the form that delivers \<open>Submitted\<close> is
  mapped into one that delivers \<open>Put\<close>.
\<close>

theorem C9_form_submitted_is_put:
  "RecipesFormAction (Submitted r) = Put r
   \<and> RecipesFormAction (Submitted r) \<noteq> RecipesForm (Submitted r)
   \<and> RecipesFormAction Back = ActivatePanel None
   \<and> recipes_update env model (RecipesFormAction (Submitted r)) = put env model r
   \<and> put env model r = (Indexed_add model (doc_id r) r, db_put (DB env) r Putted)
   \<and> map_fx RecipesFormAction (receive (Submitted r)) = receive (Put r)"
  by (simp add: RecipesFormAction_def put_def Database_put_def comp_def)

end
